theory Spec2Isabelle
  imports Main "HOL-Library.Word" "HOL-Library.Char_ord" "HOL-Library.List_Lexorder"
    "HOL-Library.Multiset"
begin

section \<open>The tables of db.sql\<close>

text \<open>
  One record per table of \<^verbatim>\<open>server/db.sql\<close>; a table is the list of its rows in
  insertion order. INTEGER columns are \<open>int\<close>, TEXT and DATETIME columns are \<open>string\<close>
  (SQLite compares them bytewise, which is the lexicographic order on \<open>char list\<close>), a
  nullable column is an \<open>option\<close> with \<open>None\<close> for NULL.
\<close>

record user_row =
  u_id :: int
  u_username :: string
  u_salt :: string
  u_password :: string
  u_secret :: string
  u_admin :: "int option"

record post_row =
  p_id :: int
  p_title :: string
  p_userId :: int
  p_text :: string
  p_maxComments :: "int option"
  p_date :: string

record comment_row =
  c_id :: int
  c_text :: string
  c_date :: string
  c_userId :: "int option"
  c_postId :: int

record flag_row =
  f_userId :: int
  f_commentId :: int

text \<open>
  \<open>db_comments_seq\<close> is the row of \<^verbatim>\<open>sqlite_sequence\<close> for the AUTOINCREMENT key of
  \<^verbatim>\<open>comments\<close>: the largest id the table has ever held.
\<close>

record database =
  db_users :: "user_row list"
  db_posts :: "post_row list"
  db_comments :: "comment_row list"
  db_flags :: "flag_row list"
  db_comments_seq :: int

section \<open>JavaScript values that reach the queries\<close>

text \<open>
  The user id a handler passes down is \<^verbatim>\<open>null\<close> (anonymous), a number, \<^verbatim>\<open>NaN\<close>
  (\<^verbatim>\<open>parseInt(undefined)\<close>) or \<^verbatim>\<open>undefined\<close> (argument omitted). node-sqlite3 binds a
  number as itself and everything else here as NULL (\<^verbatim>\<open>undefined\<close> is left unbound,
  which SQLite reads as NULL; a NaN double is stored as NULL).
\<close>

datatype js_id = JUndefined | JNull | JNaN | JNum int

fun bind_param :: "js_id \<Rightarrow> int option" where
  "bind_param (JNum n) = Some n"
| "bind_param JUndefined = None"
| "bind_param JNull = None"
| "bind_param JNaN = None"

text \<open>SQL \<^verbatim>\<open>column = ?\<close>: with NULL on either side the comparison is not true.\<close>

fun sql_eq :: "int option \<Rightarrow> int option \<Rightarrow> bool" where
  "sql_eq (Some a) (Some b) = (a = b)"
| "sql_eq _ _ = False"

text \<open>Truthiness of an INTEGER column read into JavaScript (\<^verbatim>\<open>req.user.admin\<close>).\<close>

fun truthy_int :: "int option \<Rightarrow> bool" where
  "truthy_int None = False"
| "truthy_int (Some n) = (n \<noteq> 0)"

section \<open>dao-user.js: getUserById\<close>

record user_info =
  ui_id :: int
  ui_username :: string
  ui_admin :: "int option"
  ui_secret :: string

text \<open>
  \<^verbatim>\<open>getUserById\<close> resolves to the user object, or to the object
  \<^verbatim>\<open>{ error: "User not found." }\<close> when no row matches. Both are objects, hence truthy.
\<close>

datatype user_obj = UserObj user_info | ErrorObj string

definition user_of_row :: "user_row \<Rightarrow> user_info" where
  "user_of_row r =
     \<lparr>ui_id = u_id r, ui_username = u_username r, ui_admin = u_admin r, ui_secret = u_secret r\<rparr>"

definition getUserById :: "database \<Rightarrow> js_id \<Rightarrow> user_obj" where
  "getUserById db uid =
     (case find (\<lambda>r. sql_eq (Some (u_id r)) (bind_param uid)) (db_users db) of
        None \<Rightarrow> ErrorObj ''User not found.''
      | Some r \<Rightarrow> UserObj (user_of_row r))"

fun truthy_user :: "user_obj \<Rightarrow> bool" where
  "truthy_user (UserObj _) = True"
| "truthy_user (ErrorObj _) = True"

section \<open>Sessions and the request's user\<close>

text \<open>
  A session holds the serialised user (\<^verbatim>\<open>serializeUser\<close> stores \<^verbatim>\<open>user.id\<close>) and the
  field \<^verbatim>\<open>method\<close>, which only the second-factor endpoint sets. \<^verbatim>\<open>req.user\<close> is what
  \<^verbatim>\<open>deserializeUser\<close> reads back through \<^verbatim>\<open>getUserById\<close> on each request.
\<close>

record session =
  passport_user :: "int option"
  s_method :: "string option"

definition req_user :: "database \<Rightarrow> session \<Rightarrow> user_obj option" where
  "req_user db s = map_option (\<lambda>i. getUserById db (JNum i)) (passport_user s)"

definition isAuthenticated :: "database \<Rightarrow> session \<Rightarrow> bool" where
  "isAuthenticated db s = (req_user db s \<noteq> None)"

text \<open>\<^verbatim>\<open>parseInt(req.user.id)\<close>: the id, or NaN for the error object.\<close>

fun user_id_of :: "user_obj \<Rightarrow> js_id" where
  "user_id_of (UserObj u) = JNum (ui_id u)"
| "user_id_of (ErrorObj _) = JNaN"

fun user_admin :: "user_obj \<Rightarrow> bool" where
  "user_admin (UserObj u) = truthy_int (ui_admin u)"
| "user_admin (ErrorObj _) = False"

fun user_secret :: "user_obj \<Rightarrow> string" where
  "user_secret (UserObj u) = ui_secret u"
| "user_secret (ErrorObj _) = []"

text \<open>\<^verbatim>\<open>req.session.method === "totp" && req.user.admin\<close>\<close>

definition isAdminWithTotp :: "session \<Rightarrow> user_obj \<Rightarrow> bool" where
  "isAdminWithTotp s u = (s_method s = Some ''totp'' \<and> user_admin u)"

section \<open>dao.js: reading posts and comments\<close>

record post_obj =
  po_id :: int
  po_title :: string
  po_text :: string
  po_date :: string
  po_maxComments :: "int option"
  po_username :: string
  po_userId :: int
  po_commentCount :: nat

datatype post_result = PostObj post_obj | PostError string

text \<open>
  \<^verbatim>\<open>getPost\<close>: the post joined with its author (an inner join: a post whose author
  row is missing yields no row) and the count of its comments. \<open>po_date\<close> is the stored
  text, which \<^verbatim>\<open>dayjs(...).format("YYYY-MM-DD HH:mm:ss")\<close> renders in the stored pattern.
\<close>

definition getPost :: "database \<Rightarrow> int \<Rightarrow> post_result" where
  "getPost db postId =
     (case find (\<lambda>p. p_id p = postId) (db_posts db) of
        None \<Rightarrow> PostError ''Post not found.''
      | Some p \<Rightarrow>
          (case find (\<lambda>u. u_id u = p_userId p) (db_users db) of
             None \<Rightarrow> PostError ''Post not found.''
           | Some u \<Rightarrow>
               PostObj \<lparr>po_id = p_id p, po_title = p_title p, po_text = p_text p,
                 po_date = p_date p, po_maxComments = p_maxComments p,
                 po_username = u_username u, po_userId = u_id u,
                 po_commentCount = length (filter (\<lambda>c. c_postId c = p_id p) (db_comments db))\<rparr>))"

record comment_obj =
  co_id :: int
  co_text :: string
  co_date :: string
  co_username :: "string option"
  co_userId :: "int option"
  co_interestingCount :: nat
  co_markedByMe :: bool

text \<open>\<^verbatim>\<open>LEFT JOIN users ON comments.userId = users.id\<close>, then \<^verbatim>\<open>row.username || null\<close>.\<close>

definition author_name :: "database \<Rightarrow> int option \<Rightarrow> string option" where
  "author_name db uid =
     (case uid of
        None \<Rightarrow> None
      | Some i \<Rightarrow>
          (case find (\<lambda>u. u_id u = i) (db_users db) of
             None \<Rightarrow> None
           | Some u \<Rightarrow> if u_username u = [] then None else Some (u_username u)))"

text \<open>
  The two template holes of the query test \<^verbatim>\<open>userId !== null\<close> and
  \<^verbatim>\<open>userId === null\<close>: only the value \<^verbatim>\<open>null\<close> switches the anonymous filter on and the
  \<^verbatim>\<open>markedByMe\<close> subquery off. \<^verbatim>\<open>row.userId || null\<close> turns an id 0 into \<^verbatim>\<open>null\<close>.
\<close>

definition comment_view :: "database \<Rightarrow> js_id \<Rightarrow> comment_row \<Rightarrow> comment_obj" where
  "comment_view db userId c =
     \<lparr>co_id = c_id c, co_text = c_text c, co_date = c_date c,
      co_username = author_name db (c_userId c),
      co_userId = (if c_userId c = Some 0 then None else c_userId c),
      co_interestingCount = length (filter (\<lambda>f. f_commentId f = c_id c) (db_flags db)),
      co_markedByMe =
        (if userId \<noteq> JNull
         then list_ex (\<lambda>f. f_commentId f = c_id c \<and> sql_eq (Some (f_userId f)) (bind_param userId))
                (db_flags db)
         else False)\<rparr>"

definition comment_selected :: "int \<Rightarrow> js_id \<Rightarrow> comment_row \<Rightarrow> bool" where
  "comment_selected postId userId c =
     (c_postId c = postId \<and> (if userId = JNull then c_userId c = None else True))"

definition getCommentsByPostId :: "database \<Rightarrow> int \<Rightarrow> js_id \<Rightarrow> comment_obj list" where
  "getCommentsByPostId db postId userId =
     map (comment_view db userId)
       (rev (sort_key c_date (filter (comment_selected postId userId) (db_comments db))))"

text \<open>
  \<^verbatim>\<open>createComment\<close>: the insert fails on a foreign key that names no row; the new id
  is one more than the largest id the table has held. \<open>now\<close> is the value of
  \<^verbatim>\<open>DATETIME('now', '+2 hours')\<close>.
\<close>

record new_comment =
  nc_text :: string
  nc_postId :: int
  nc_userId :: js_id

definition next_comment_id :: "database \<Rightarrow> int" where
  "next_comment_id db = fold max (map c_id (db_comments db)) (db_comments_seq db) + 1"

definition fk_user_ok :: "database \<Rightarrow> int option \<Rightarrow> bool" where
  "fk_user_ok db uid =
     (case uid of None \<Rightarrow> True | Some i \<Rightarrow> list_ex (\<lambda>u. u_id u = i) (db_users db))"

definition createComment ::
  "string \<Rightarrow> database \<Rightarrow> new_comment \<Rightarrow> (string + comment_obj) \<times> database" where
  "createComment now db comment =
     (let uid = bind_param (nc_userId comment)
      in if \<not> (fk_user_ok db uid \<and> list_ex (\<lambda>p. p_id p = nc_postId comment) (db_posts db))
         then (Inl ''SQLITE_CONSTRAINT: FOREIGN KEY constraint failed'', db)
         else
           let commentId = next_comment_id db;
               row = \<lparr>c_id = commentId, c_text = nc_text comment, c_date = now,
                      c_userId = uid, c_postId = nc_postId comment\<rparr>;
               db' = db\<lparr>db_comments := db_comments db @ [row], db_comments_seq := commentId\<rparr>
           in (Inr \<lparr>co_id = commentId, co_text = nc_text comment, co_date = now,
                    co_username = author_name db' uid, co_userId = uid,
                    co_interestingCount = 0, co_markedByMe = False\<rparr>, db'))"

section \<open>dao.js: the interesting flags\<close>

text \<open>
  \<^verbatim>\<open>markCommentAsInteresting\<close> is a bare INSERT; the promise rejects with the error of
  SQLite, whose message names the constraint that failed. The primary key
  \<^verbatim>\<open>(userId, commentId)\<close> is checked when the row is written, the foreign keys when the
  statement ends.
\<close>

definition markCommentAsInteresting ::
  "database \<Rightarrow> int \<Rightarrow> js_id \<Rightarrow> (string + bool) \<times> database" where
  "markCommentAsInteresting db commentId userId =
     (case bind_param userId of
        None \<Rightarrow>
          (Inl ''SQLITE_CONSTRAINT: NOT NULL constraint failed: interesting_flags.userId'', db)
      | Some u \<Rightarrow>
          if list_ex (\<lambda>f. f_userId f = u \<and> f_commentId f = commentId) (db_flags db)
          then (Inl (''SQLITE_CONSTRAINT: UNIQUE constraint failed: '' @
                     ''interesting_flags.userId, interesting_flags.commentId''), db)
          else if \<not> (list_ex (\<lambda>r. u_id r = u) (db_users db) \<and>
                       list_ex (\<lambda>c. c_id c = commentId) (db_comments db))
          then (Inl ''SQLITE_CONSTRAINT: FOREIGN KEY constraint failed'', db)
          else (Inr True,
                db\<lparr>db_flags := db_flags db @ [\<lparr>f_userId = u, f_commentId = commentId\<rparr>]\<rparr>))"

definition interestingCount :: "database \<Rightarrow> int \<Rightarrow> nat" where
  "interestingCount db commentId = length (filter (\<lambda>f. f_commentId f = commentId) (db_flags db))"

section \<open>dao.js: mutations of comments and posts\<close>


definition post_matches :: "int \<Rightarrow> js_id \<Rightarrow> bool \<Rightarrow> post_row \<Rightarrow> bool" where
  "post_matches postId userId isAdminTotp p =
     (if isAdminTotp then p_id p = postId
      else p_id p = postId \<and> sql_eq (Some (p_userId p)) (bind_param userId))"



definition cascade_flags :: "comment_row list \<Rightarrow> flag_row list \<Rightarrow> flag_row list" where
  "cascade_flags gone fs = filter (\<lambda>f. f_commentId f \<notin> set (map c_id gone)) fs"


definition deletePost :: "database \<Rightarrow> int \<Rightarrow> js_id \<Rightarrow> bool \<Rightarrow> nat \<times> database" where
  "deletePost db postId userId isAdminTotp =
     (let gonePosts = filter (post_matches postId userId isAdminTotp) (db_posts db);
          goneComments = filter (\<lambda>c. c_postId c \<in> set (map p_id gonePosts)) (db_comments db)
      in (length gonePosts,
          db\<lparr>db_posts := filter (\<lambda>p. \<not> post_matches postId userId isAdminTotp p) (db_posts db),
             db_comments :=
                filter (\<lambda>c. c_postId c \<notin> set (map p_id gonePosts)) (db_comments db),
             db_flags := cascade_flags goneComments (db_flags db)\<rparr>))"

section \<open>index.js: responses and the mutation endpoints\<close>

text \<open>
  The comment object the endpoints send: \<^verbatim>\<open>sanitizeComment\<close> keeps these six fields
  and drops \<^verbatim>\<open>userId\<close>.
\<close>

record comment_json =
  cj_id :: int
  cj_text :: string
  cj_username :: "string option"
  cj_date :: string
  cj_interestingCount :: nat
  cj_markedByMe :: bool

datatype body =
  NoBody
| ErrorBody string
| ValidationErrors
| SuccessBody
| CommentsBody "comment_json list"
| CommentBody comment_json
| OtpAuthorized
| Unauthorized

record response =
  status :: nat
  body :: body

definition respond :: "nat \<Rightarrow> body \<Rightarrow> response" where
  "respond st b = \<lparr>status = st, body = b\<rparr>"

text \<open>
  A path parameter \<^verbatim>\<open>:id\<close> is \<open>Some n\<close> when the text is an integer literal and
  \<open>None\<close> otherwise; \<^verbatim>\<open>check("id").isInt({ min: 1 })\<close> accepts \<open>Some n\<close> with \<open>1 \<le> n\<close>.
\<close>

fun valid_id :: "int option \<Rightarrow> bool" where
  "valid_id None = False"
| "valid_id (Some n) = (1 \<le> n)"

text \<open>
  The body field \<^verbatim>\<open>text\<close> is \<open>Some t\<close> when it is a string. \<open>purify\<close> stands for
  \<^verbatim>\<open>DOMPurify.sanitize(_, { ALLOWED_TAGS: [] })\<close>, a library outside the repository.
\<close>

fun valid_text :: "(string \<Rightarrow> string) \<Rightarrow> string option \<Rightarrow> bool" where
  "valid_text purify None = False"
| "valid_text purify (Some t) = (1 \<le> length t \<and> purify t \<noteq> [])"



definition delete_post ::
  "database \<Rightarrow> session \<Rightarrow> int option \<Rightarrow> response \<times> database" where
  "delete_post db s idParam =
     (case req_user db s of
        None \<Rightarrow> (respond 401 (ErrorBody ''Not authenticated''), db)
      | Some u \<Rightarrow>
          if \<not> valid_id idParam then (respond 422 ValidationErrors, db)
          else
            let postId = the idParam;
                userId = user_id_of u;
                user = getUserById db userId
            in if \<not> truthy_user user then (respond 404 (ErrorBody ''User not found''), db)
               else
                 (case deletePost db postId userId (isAdminWithTotp s u) of
                    (changes, db') \<Rightarrow>
                      if changes = 0
                      then (respond 403 (ErrorBody ''Not allowed or post not found''), db')
                      else (respond 200 SuccessBody, db')))"

section \<open>index.js: reading and creating comments\<close>

text \<open>
  Strings are sequences of ASCII characters here, and \<^verbatim>\<open>trim\<close> (of the validator library
  and of \<^verbatim>\<open>String.prototype\<close>) removes the ASCII white space at both ends.
\<close>

definition is_space :: "char \<Rightarrow> bool" where
  "is_space c = (c \<in> set [CHR 0x09, CHR 0x0A, CHR 0x0B, CHR 0x0C, CHR 0x0D, CHR 0x20])"

definition js_trim :: "string \<Rightarrow> string" where
  "js_trim t = rev (dropWhile is_space (rev (dropWhile is_space t)))"

definition sanitizeComment :: "(string \<Rightarrow> string) \<Rightarrow> comment_obj \<Rightarrow> comment_json" where
  "sanitizeComment purify comment =
     \<lparr>cj_id = co_id comment,
      cj_text = purify (co_text comment),
      cj_username =
        (case co_username comment of
           None \<Rightarrow> None
         | Some n \<Rightarrow> if n = [] then None else Some (purify (js_trim n))),
      cj_date = purify (co_date comment),
      cj_interestingCount = co_interestingCount comment,
      cj_markedByMe = co_markedByMe comment\<rparr>"

text \<open>\<^verbatim>\<open>req.user ? parseInt(req.user.id) : null\<close>\<close>

definition requester_id :: "database \<Rightarrow> session \<Rightarrow> js_id" where
  "requester_id db s = (case req_user db s of None \<Rightarrow> JNull | Some u \<Rightarrow> user_id_of u)"

definition get_comments ::
  "(string \<Rightarrow> string) \<Rightarrow> database \<Rightarrow> session \<Rightarrow> int option \<Rightarrow> response" where
  "get_comments purify db s idParam =
     (if \<not> valid_id idParam then respond 422 ValidationErrors
      else
        let postId = the idParam;
            userId = requester_id db s
        in respond 200
             (CommentsBody (map (sanitizeComment purify) (getCommentsByPostId db postId userId))))"

text \<open>The ids of the comments a response lists, in the order it lists them.\<close>

fun body_ids :: "body \<Rightarrow> int list" where
  "body_ids (CommentsBody cs) = map cj_id cs"
| "body_ids _ = []"

text \<open>
  The creation endpoint calls \<^verbatim>\<open>dao.getCommentsByPostId(postId)\<close> with one argument, so
  the DAO's \<^verbatim>\<open>userId\<close> is \<^verbatim>\<open>undefined\<close>. \<^verbatim>\<open>post.error\<close> is set exactly on the error
  object of \<^verbatim>\<open>getPost\<close>.
\<close>

definition post_comment ::
  "(string \<Rightarrow> string) \<Rightarrow> string \<Rightarrow> database \<Rightarrow> session \<Rightarrow> int option \<Rightarrow> string option
     \<Rightarrow> response \<times> database" where
  "post_comment purify now db s idParam textParam =
     (if \<not> (valid_id idParam \<and> valid_text purify textParam)
      then (respond 422 ValidationErrors, db)
      else
        let postId = the idParam;
            userId = requester_id db s
        in (case getPost db postId of
              PostError e \<Rightarrow> (respond 404 (ErrorBody e), db)
            | PostObj post \<Rightarrow>
                let currentComments = getCommentsByPostId db postId JUndefined
                in if po_maxComments post \<noteq> None \<and>
                      int (length currentComments) \<ge> the (po_maxComments post)
                   then (respond 403
                           (ErrorBody ''Maximum number of comments reached for this post''), db)
                   else
                     let comment = \<lparr>nc_text = purify (the textParam), nc_postId = postId,
                                     nc_userId = userId\<rparr>
                     in (case createComment now db comment of
                           (Inl err, db') \<Rightarrow>
                             (respond 503
                                (ErrorBody ''Database error during comment creation''), db')
                         | (Inr result, db') \<Rightarrow>
                             (respond 201 (CommentBody (sanitizeComment purify result)), db'))))"

section \<open>index.js: marking a comment as interesting\<close>

definition post_interesting ::
  "database \<Rightarrow> session \<Rightarrow> int option \<Rightarrow> response \<times> database" where
  "post_interesting db s idParam =
     (case req_user db s of
        None \<Rightarrow> (respond 401 (ErrorBody ''Not authenticated''), db)
      | Some u \<Rightarrow>
          if \<not> valid_id idParam then (respond 422 ValidationErrors, db)
          else
            let commentId = the idParam;
                userId = user_id_of u;
                user = getUserById db userId
            in if \<not> truthy_user user then (respond 404 (ErrorBody ''User not found''), db)
               else
                 (case markCommentAsInteresting db commentId userId of
                    (Inr ok, db') \<Rightarrow> (respond 200 SuccessBody, db')
                  | (Inl message, db') \<Rightarrow>
                      if message = ''Already marked''
                      then (respond 409
                              (ErrorBody ''Comment already marked as interesting by this user''),
                            db')
                      else (respond 503
                              (ErrorBody ''Database error while marking comment as interesting''),
                            db')))"

section \<open>index.js: the second factor\<close>

text \<open>
  The body field \<^verbatim>\<open>code\<close> as JSON delivers it. \<^verbatim>\<open>isNumeric\<close> of the validator library
  tests the pattern \<^verbatim>\<open>^[+-]?([0-9]*[.])?[0-9]+$\<close>.
\<close>

datatype js_val = VUndefined | VNull | VBool bool | VNumber int | VString string

fun truthy_val :: "js_val \<Rightarrow> bool" where
  "truthy_val VUndefined = False"
| "truthy_val VNull = False"
| "truthy_val (VBool b) = b"
| "truthy_val (VNumber n) = (n \<noteq> 0)"
| "truthy_val (VString t) = (t \<noteq> [])"

definition is_digit :: "char \<Rightarrow> bool" where
  "is_digit c = (c \<in> set ''0123456789'')"

fun strip_sign :: "string \<Rightarrow> string" where
  "strip_sign [] = []"
| "strip_sign (c # cs) = (if c = CHR ''+'' \<or> c = CHR ''-'' then cs else c # cs)"

definition isNumeric :: "string \<Rightarrow> bool" where
  "isNumeric t =
     (let r = strip_sign t
      in (r \<noteq> [] \<and> list_all is_digit r) \<or>
         (case dropWhile is_digit r of
            [] \<Rightarrow> False
          | c # ds \<Rightarrow> c = CHR ''.'' \<and> ds \<noteq> [] \<and> list_all is_digit ds))"

text \<open>
  The first middleware of \<^verbatim>\<open>POST /api/login-totp\<close> either answers or calls \<^verbatim>\<open>next()\<close>
  with the trimmed code. A truthy code that is no string has no \<^verbatim>\<open>trim\<close>: the TypeError
  lands in the \<^verbatim>\<open>catch\<close> of the promise.
\<close>

datatype totp_check = Answer response | Next string

definition login_totp_check :: "database \<Rightarrow> user_obj \<Rightarrow> js_val \<Rightarrow> totp_check" where
  "login_totp_check db requser code =
     (let user = getUserById db (user_id_of requser)
      in if \<not> truthy_user user then Answer (respond 404 (ErrorBody ''User not found''))
         else if \<not> user_admin requser
         then Answer (respond 403 (ErrorBody ''Only admin can use 2FA login''))
         else if user_secret requser = []
         then Answer (respond 403 (ErrorBody ''2FA not enabled for this user''))
         else if \<not> truthy_val code
         then Answer (respond 422 (ErrorBody ''Missing or invalid TOTP code''))
         else (case code of
                 VString t \<Rightarrow>
                   if \<not> isNumeric (js_trim t)
                   then Answer (respond 422 (ErrorBody ''Missing or invalid TOTP code''))
                   else Next (js_trim t)
               | _ \<Rightarrow> Answer (respond 503 (ErrorBody ''Error validating user''))))"

text \<open>
  \<open>verify secret code\<close> stands for the TOTP strategy of passport: it decodes the base32
  secret of \<^verbatim>\<open>req.user\<close> and compares the code with the one-time codes of the current
  time window. A failure answers 401, a success lets the last handler mark the session.
\<close>

definition login_totp ::
  "(string \<Rightarrow> string \<Rightarrow> bool) \<Rightarrow> database \<Rightarrow> session \<Rightarrow> js_val \<Rightarrow> response \<times> session" where
  "login_totp verify db s code =
     (case req_user db s of
        None \<Rightarrow> (respond 401 (ErrorBody ''Not authenticated''), s)
      | Some requser \<Rightarrow>
          (case login_totp_check db requser code of
             Answer r \<Rightarrow> (r, s)
           | Next c \<Rightarrow>
               if verify (user_secret requser) c
               then (respond 200 OtpAuthorized, s\<lparr>s_method := Some ''totp''\<rparr>)
               else (respond 401 Unauthorized, s)))"


section \<open>dao-user.js: getUser\<close>

text \<open>
  \<^verbatim>\<open>Buffer.from(text, "hex")\<close> decodes pairs of hexadecimal digits and stops at the first
  pair that is none. \<^verbatim>\<open>crypto.timingSafeEqual\<close> throws a RangeError on buffers of
  different lengths. \<open>scrypt password salt\<close> stands for \<^verbatim>\<open>crypto.scrypt(password, salt, 32)\<close>.
\<close>

definition hex_val :: "char \<Rightarrow> nat option" where
  "hex_val c =
     (if c \<in> set ''0123456789'' then Some (of_char c - 48)
      else if c \<in> set ''abcdef'' then Some (of_char c - 87)
      else if c \<in> set ''ABCDEF'' then Some (of_char c - 55)
      else None)"

fun from_hex :: "string \<Rightarrow> 8 word list" where
  "from_hex (a # b # rest) =
     (case hex_val a of
        None \<Rightarrow> []
      | Some x \<Rightarrow>
          (case hex_val b of
             None \<Rightarrow> []
           | Some y \<Rightarrow> word_of_nat (16 * x + y) # from_hex rest))"
| "from_hex _ = []"

datatype crypto_error = RangeError

definition timingSafeEqual :: "8 word list \<Rightarrow> 8 word list \<Rightarrow> crypto_error + bool" where
  "timingSafeEqual a b = (if length a \<noteq> length b then Inl RangeError else Inr (a = b))"

definition getUser ::
  "(string \<Rightarrow> string \<Rightarrow> 8 word list) \<Rightarrow> database \<Rightarrow> string \<Rightarrow> string
     \<Rightarrow> crypto_error + user_info option" where
  "getUser scrypt db username password =
     (case find (\<lambda>r. u_username r = username) (db_users db) of
        None \<Rightarrow> Inr None
      | Some row \<Rightarrow>
          let user = user_of_row row;
              salt = u_salt row;
              hashedPassword = scrypt password salt;
              passwordHex = from_hex (u_password row)
          in (case timingSafeEqual passwordHex hashedPassword of
                Inl e \<Rightarrow> Inl e
              | Inr same \<Rightarrow> if \<not> same then Inr None else Inr (Some user)))"

section \<open>A database in the shape of the seed data\<close>

text \<open>
  Four users, two posts, five comments and three flags taken from the INSERT statements of
  db.sql. Post 1 is capped here at three comments and holds three; post 3 has no cap.
\<close>

definition example_users :: "user_row list" where
  "example_users =
     [\<lparr>u_id = 1, u_username = ''alberto'', u_salt = ''123348dusd437840'',
       u_password = ''451f285506c0b237317244eb8fb57ea736cb9693b4b329e300bcfec4d63485ca'',
       u_secret = ''LXBSMDTMSP2I5XFXIYRGFVWSFI'', u_admin = Some 1\<rparr>,
      \<lparr>u_id = 2, u_username = ''bob'', u_salt = ''7732qweydg3sd637'',
       u_password = ''0a9580050849c541807e5778b7f0410569832414ceaf9a17054666206beb0fd7'',
       u_secret = ''LXBSMDTMSP2I5XFXIYRGFVWSFI'', u_admin = Some 1\<rparr>,
      \<lparr>u_id = 3, u_username = ''carl'', u_salt = ''wgb32sge2sh7hse7'',
       u_password = ''c56467cd69169df291e9267ebde0bc152a8e822ee0ca38944bb901ed0a720708'',
       u_secret = [], u_admin = Some 0\<rparr>,
      \<lparr>u_id = 4, u_username = ''diana'', u_salt = ''safd6523tdwt82et'',
       u_password = ''0cd67adcdcd0b48c2441c10c53e476036ffd263f63f1c855fd06e0767b65c145'',
       u_secret = [], u_admin = Some 0\<rparr>]"

definition example_posts :: "post_row list" where
  "example_posts =
     [\<lparr>p_id = 1, p_title = ''The Quantum Leap in Computing'', p_userId = 1,
       p_text = ''The future of technology is about to get a major upgrade.'',
       p_maxComments = Some 3, p_date = ''2015-01-01 10:21:27''\<rparr>,
      \<lparr>p_id = 3, p_title = ''The Ethical Dilemmas of AI'', p_userId = 2,
       p_text = ''As AI becomes more sophisticated, so do the ethical questions.'',
       p_maxComments = None, p_date = ''2014-01-03 19:44:02''\<rparr>]"

definition example_comments :: "comment_row list" where
  "example_comments =
     [\<lparr>c_id = 1, c_text = ''Absolutely fascinating! This really makes you think.'',
       c_date = ''2015-12-01 11:21:27'', c_userId = Some 2, c_postId = 1\<rparr>,
      \<lparr>c_id = 2, c_text = ''Great points raised here. So much to consider.'',
       c_date = ''2015-10-04 14:44:56'', c_userId = None, c_postId = 1\<rparr>,
      \<lparr>c_id = 3, c_text = ''I have been wondering about this topic lately.'',
       c_date = ''2015-12-05 12:01:09'', c_userId = Some 4, c_postId = 1\<rparr>,
      \<lparr>c_id = 7, c_text = ''A really insightful take. It offers a fresh perspective.'',
       c_date = ''2014-12-05 07:46:07'', c_userId = Some 1, c_postId = 3\<rparr>,
      \<lparr>c_id = 9, c_text = ''Fantastic read! It is rare to find such clarity on this.'',
       c_date = ''2014-12-05 04:11:52'', c_userId = None, c_postId = 3\<rparr>]"

definition example_flags :: "flag_row list" where
  "example_flags =
     [\<lparr>f_userId = 1, f_commentId = 2\<rparr>,
      \<lparr>f_userId = 4, f_commentId = 2\<rparr>,
      \<lparr>f_userId = 3, f_commentId = 9\<rparr>]"

definition example_db :: database where
  "example_db =
     \<lparr>db_users = example_users, db_posts = example_posts, db_comments = example_comments,
      db_flags = example_flags, db_comments_seq = 27\<rparr>"

text \<open>
  Sessions: nobody; diana after the password; alberto after the password; alberto after
  the second factor.
\<close>

definition anonymous :: session where
  "anonymous = \<lparr>passport_user = None, s_method = None\<rparr>"

definition diana_session :: session where
  "diana_session = \<lparr>passport_user = Some 4, s_method = None\<rparr>"

definition alberto_session :: session where
  "alberto_session = \<lparr>passport_user = Some 1, s_method = None\<rparr>"

definition alberto_totp_session :: session where
  "alberto_totp_session = \<lparr>passport_user = Some 1, s_method = Some ''totp''\<rparr>"

section \<open>Facts about the example database\<close>

lemmas ex_defs = example_db_def example_users_def example_posts_def example_comments_def
  example_flags_def anonymous_def diana_session_def alberto_session_def alberto_totp_session_def

lemma example_diana: "req_user example_db diana_session =
   Some (UserObj \<lparr>ui_id = 4, ui_username = ''diana'', ui_admin = Some 0, ui_secret = []\<rparr>)"
  by (simp add: ex_defs req_user_def getUserById_def user_of_row_def)




section \<open>Who may edit or delete\<close>


lemma truthy_user_always [simp]: "truthy_user x"
  by (cases x) simp_all















section \<open>Absent resources and denied requests\<close>




section \<open>Deleting a post takes its comments and their flags\<close>

lemma gone_posts_ids:
  "set (map p_id (filter (post_matches n uid adm) ps)) \<subseteq> {n}"
  by (auto simp: post_matches_def split: if_splits)

text \<open>
  Claim C8. When the deletion of post \<open>n\<close> is answered 200, the database afterwards holds
  no comment whose parent is \<open>n\<close> and no flag on a comment that had \<open>n\<close> as its parent.
\<close>

theorem delete_post_cascades:
  assumes "delete_post db s (Some n) = (r, db')" and "status r = 200"
  shows "filter (\<lambda>c. c_postId c = n) (db_comments db') = [] \<and>
         filter (\<lambda>f. f_commentId f \<in> c_id ` {c \<in> set (db_comments db). c_postId c = n})
           (db_flags db') = []"
proof -
  obtain u where u: "req_user db s = Some u"
    using assms by (cases "req_user db s") (auto simp: delete_post_def respond_def)
  define uid where "uid = user_id_of u"
  define adm where "adm = isAdminWithTotp s u"
  define gone where "gone = filter (post_matches n uid adm) (db_posts db)"
  have run: "(case deletePost db n uid adm of
               (changes, db'') \<Rightarrow>
                 if changes = 0
                 then (respond 403 (ErrorBody ''Not allowed or post not found''), db'')
                 else (respond 200 SuccessBody, db'')) = (r, db')"
    using assms u
    by (auto simp: delete_post_def Let_def uid_def adm_def respond_def split: if_splits)
  have ne: "gone \<noteq> []"
    using run assms(2)
    by (auto simp: deletePost_def Let_def gone_def respond_def split: if_splits)
  have db': "db' = snd (deletePost db n uid adm)"
    using run by (auto split: prod.splits if_splits)
  have ids: "set (map p_id gone) = {n}"
  proof -
    have "set (map p_id gone) \<subseteq> {n}" unfolding gone_def by (rule gone_posts_ids)
    moreover have "set (map p_id gone) \<noteq> {}" using ne by simp
    ultimately show ?thesis by (metis subset_singletonD)
  qed
  have comments: "db_comments db' = filter (\<lambda>c. c_postId c \<noteq> n) (db_comments db)"
    using ids by (simp add: db' deletePost_def Let_def gone_def)
  have flags: "db_flags db' =
      filter (\<lambda>f. f_commentId f \<notin> c_id ` {c \<in> set (db_comments db). c_postId c = n})
        (db_flags db)"
    using ids by (simp add: db' deletePost_def Let_def gone_def cascade_flags_def)
  have c1: "filter (\<lambda>c. c_postId c = n) (db_comments db') = []"
    by (simp add: comments filter_empty_conv)
  have c2: "filter (\<lambda>f. f_commentId f \<in> c_id ` {c \<in> set (db_comments db). c_postId c = n})
           (db_flags db') = []"
    by (simp add: flags filter_empty_conv)
  show ?thesis using c1 c2 by simp
qed


text \<open>
  alberto deletes his post 1: its three comments go, and with them the two flags on
  comment 2; the flag on comment 9 of post 3 stays.
\<close>

theorem delete_post_cascades_witness:
  "filter (\<lambda>c. c_postId c = 1)
     (db_comments (snd (delete_post example_db alberto_session (Some 1)))) = [] \<and>
   filter (\<lambda>f. f_commentId f \<in> c_id ` {c \<in> set (db_comments example_db). c_postId c = 1})
     (db_flags (snd (delete_post example_db alberto_session (Some 1)))) = [] \<and>
   db_flags (snd (delete_post example_db alberto_session (Some 1))) =
     [\<lparr>f_userId = 3, f_commentId = 9\<rparr>]"
proof -
  have run: "delete_post example_db alberto_session (Some 1) =
      (fst (delete_post example_db alberto_session (Some 1)),
       snd (delete_post example_db alberto_session (Some 1)))"
    by simp
  have ok: "status (fst (delete_post example_db alberto_session (Some 1))) = 200"
    by (simp add: delete_post_def req_user_def getUserById_def user_of_row_def deletePost_def post_matches_def
        isAdminWithTotp_def respond_def ex_defs)
  have fl: "db_flags (snd (delete_post example_db alberto_session (Some 1))) =
     [\<lparr>f_userId = 3, f_commentId = 9\<rparr>]"
    by (simp add: delete_post_def req_user_def getUserById_def user_of_row_def deletePost_def post_matches_def
        isAdminWithTotp_def respond_def cascade_flags_def ex_defs)
  show ?thesis
    using delete_post_cascades[OF run ok] fl by simp
qed

section \<open>The comments a requester sees\<close>

lemma user_id_not_null: "user_id_of u \<noteq> JNull"
  by (cases u) simp_all

lemma sanitized_id: "cj_id (sanitizeComment purify (comment_view db uid c)) = c_id c"
  by (simp add: sanitizeComment_def comment_view_def)

lemma listed_ids:
  "map (cj_id \<circ> sanitizeComment purify) (getCommentsByPostId db n uid) =
   map c_id (rev (sort_key c_date (filter (comment_selected n uid) (db_comments db))))"
  by (simp add: getCommentsByPostId_def sanitized_id comp_def)

lemma get_comments_list:
  assumes "1 \<le> n"
  shows "body_ids (body (get_comments purify db s (Some n))) =
         map c_id (rev (sort_key c_date
           (filter (comment_selected n (requester_id db s)) (db_comments db))))"
  using assms by (simp add: get_comments_def respond_def Let_def listed_ids)

lemma get_comments_ids:
  assumes "1 \<le> n"
  shows "mset (body_ids (body (get_comments purify db s (Some n)))) =
         mset (map c_id (filter (comment_selected n (requester_id db s)) (db_comments db)))"
  by (simp add: get_comments_list[OF assms])

lemma selected_anonymous:
  "comment_selected n JNull = (\<lambda>c. c_postId c = n \<and> c_userId c = None)"
  by (rule ext) (simp add: comment_selected_def)

lemma selected_other:
  "uid \<noteq> JNull \<Longrightarrow> comment_selected n uid = (\<lambda>c. c_postId c = n)"
  by (rule ext) (simp add: comment_selected_def)

text \<open>
  Claim C6. For a valid post id, the list sent to an anonymous requester holds exactly the
  comments of the post whose owner is NULL, the list sent to an authenticated requester holds
  all comments of the post, and every comment of the first list is in the second.
\<close>

theorem comment_visibility:
  assumes "1 \<le> n" and "req_user db a = None" and "req_user db s = Some u"
  shows "mset (body_ids (body (get_comments purify db a (Some n)))) =
           mset (map c_id (filter (\<lambda>c. c_postId c = n \<and> c_userId c = None) (db_comments db))) \<and>
         mset (body_ids (body (get_comments purify db s (Some n)))) =
           mset (map c_id (filter (\<lambda>c. c_postId c = n) (db_comments db))) \<and>
         set (body_ids (body (get_comments purify db a (Some n)))) \<subseteq>
           set (body_ids (body (get_comments purify db s (Some n))))"
proof -
  have ra: "requester_id db a = JNull"
    using assms(2) by (simp add: requester_id_def)
  have rs: "requester_id db s \<noteq> JNull"
    using assms(3) by (simp add: requester_id_def user_id_not_null)
  have A: "mset (body_ids (body (get_comments purify db a (Some n)))) =
           mset (map c_id (filter (\<lambda>c. c_postId c = n \<and> c_userId c = None) (db_comments db)))"
    using get_comments_ids[OF assms(1), of purify db a] by (simp add: ra selected_anonymous)
  have S: "mset (body_ids (body (get_comments purify db s (Some n)))) =
           mset (map c_id (filter (\<lambda>c. c_postId c = n) (db_comments db)))"
    using get_comments_ids[OF assms(1), of purify db s] by (simp add: selected_other[OF rs])
  have "set_mset (mset (body_ids (body (get_comments purify db a (Some n))))) \<subseteq>
        set_mset (mset (body_ids (body (get_comments purify db s (Some n)))))"
    unfolding A S by auto
  then have sub: "set (body_ids (body (get_comments purify db a (Some n)))) \<subseteq>
           set (body_ids (body (get_comments purify db s (Some n))))"
    by simp
  from A S sub show ?thesis by blast
qed

text \<open>
  Post 1 of the example: nobody is sent comment 2 alone, diana is sent comments 3, 1 and 2.
\<close>

theorem comment_visibility_witness:
  "mset (body_ids (body (get_comments (\<lambda>t. t) example_db anonymous (Some 1)))) = {#2#} \<and>
   mset (body_ids (body (get_comments (\<lambda>t. t) example_db diana_session (Some 1)))) =
     {#1, 2, 3#} \<and>
   set (body_ids (body (get_comments (\<lambda>t. t) example_db anonymous (Some 1)))) \<subseteq>
     set (body_ids (body (get_comments (\<lambda>t. t) example_db diana_session (Some 1))))"
proof -
  have a: "req_user example_db anonymous = None"
    by (simp add: req_user_def anonymous_def)
  have one: "(1::int) \<le> 1" by simp
  have l1: "map c_id (filter (\<lambda>c. c_postId c = 1 \<and> c_userId c = None)
              (db_comments example_db)) = [2]"
    by (simp add: ex_defs)
  have l2: "map c_id (filter (\<lambda>c. c_postId c = 1) (db_comments example_db)) = [1, 2, 3]"
    by (simp add: ex_defs)
  have m1: "mset [2::int] = {#2#}" by simp
  have m2: "mset [1::int, 2, 3] = {#1, 2, 3#}" by simp
  show ?thesis
    using comment_visibility[OF one a example_diana, of "\<lambda>t. t"]
    unfolding l1 l2 m1 m2 by blast
qed

section \<open>The ceiling on the comments of a post\<close>

lemma count_undefined:
  "length (getCommentsByPostId db n JUndefined) =
   length (filter (\<lambda>c. c_postId c = n) (db_comments db))"
  by (simp add: getCommentsByPostId_def selected_other)

lemma count_anonymous:
  "length (getCommentsByPostId db n JNull) =
   length (filter (\<lambda>c. c_postId c = n \<and> c_userId c = None) (db_comments db))"
  by (simp add: getCommentsByPostId_def selected_anonymous)

lemma getUserById_found:
  assumes "getUserById db (JNum i) = UserObj u"
  shows "ui_id u = i \<and> list_ex (\<lambda>r. u_id r = i) (db_users db)"
proof -
  obtain r where r: "find (\<lambda>r. sql_eq (Some (u_id r)) (Some i)) (db_users db) = Some r"
    and u: "u = user_of_row r"
    using assms by (auto simp: getUserById_def split: option.splits)
  from r have "u_id r = i" and "r \<in> set (db_users db)"
    by (auto simp: find_Some_iff in_set_conv_nth)
  then show ?thesis using u by (auto simp: user_of_row_def list_ex_iff)
qed

lemma requester_fk: "fk_user_ok db (bind_param (requester_id db s))"
proof (cases "req_user db s")
  case None
  then show ?thesis by (simp add: requester_id_def fk_user_ok_def)
next
  case (Some ru)
  show ?thesis
  proof (cases ru)
    case (UserObj u)
    obtain i where i: "passport_user s = Some i" and g: "getUserById db (JNum i) = UserObj u"
      using Some UserObj by (auto simp: req_user_def)
    from getUserById_found[OF g] show ?thesis
      using Some UserObj by (simp add: requester_id_def fk_user_ok_def)
  next
    case (ErrorObj e)
    then show ?thesis using Some by (simp add: requester_id_def fk_user_ok_def)
  qed
qed

lemma getPost_exists:
  assumes "getPost db n = PostObj post"
  shows "list_ex (\<lambda>p. p_id p = n) (db_posts db)"
proof -
  obtain p where "find (\<lambda>p. p_id p = n) (db_posts db) = Some p"
    using assms by (auto simp: getPost_def split: option.splits)
  then have "p_id p = n" and "p \<in> set (db_posts db)"
    by (auto simp: find_Some_iff in_set_conv_nth)
  then show ?thesis by (auto simp: list_ex_iff)
qed

lemma post_comment_status:
  assumes "getPost db n = PostObj post" and "1 \<le> n" and "valid_text purify (Some t)"
  shows "status (fst (post_comment purify now db s (Some n) (Some t))) =
     (if po_maxComments post \<noteq> None \<and>
         the (po_maxComments post) \<le> int (length (filter (\<lambda>c. c_postId c = n) (db_comments db)))
      then 403 else 201)"
  using assms requester_fk[of db s] getPost_exists[OF assms(1)]
  by (simp add: post_comment_def count_undefined createComment_def Let_def respond_def
      del: valid_text.simps)

lemma post_comment_db:
  assumes "getPost db n = PostObj post" and "1 \<le> n" and "valid_text purify (Some t)"
  shows "snd (post_comment purify now db s (Some n) (Some t)) =
     (if po_maxComments post \<noteq> None \<and>
         the (po_maxComments post) \<le> int (length (filter (\<lambda>c. c_postId c = n) (db_comments db)))
      then db
      else db\<lparr>db_comments := db_comments db @
                  [\<lparr>c_id = next_comment_id db, c_text = purify t, c_date = now,
                    c_userId = bind_param (requester_id db s), c_postId = n\<rparr>],
               db_comments_seq := next_comment_id db\<rparr>)"
  using assms requester_fk[of db s] getPost_exists[OF assms(1)]
  by (simp add: post_comment_def count_undefined createComment_def Let_def
      del: valid_text.simps)

text \<open>
  Claim C5. For a post that \<^verbatim>\<open>getPost\<close> finds and a request that passes the validators:
  with \<^verbatim>\<open>maxComments\<close> NULL the creation is answered 201 whatever the count; with
  \<^verbatim>\<open>maxComments\<close> \<open>N\<close> it is answered 201 while the post holds fewer than \<open>N\<close> comments
  and 403 once it holds \<open>N\<close> or more. An accepted creation adds one comment to the post, a
  rejected one none.
\<close>

theorem comment_ceiling:
  assumes "getPost db n = PostObj post" and "1 \<le> n" and "valid_text purify (Some t)"
  shows "status (fst (post_comment purify now db s (Some n) (Some t))) =
           (case po_maxComments post of
              None \<Rightarrow> 201
            | Some N \<Rightarrow>
                if int (length (filter (\<lambda>c. c_postId c = n) (db_comments db))) < N
                then 201 else 403) \<and>
         length (filter (\<lambda>c. c_postId c = n)
             (db_comments (snd (post_comment purify now db s (Some n) (Some t))))) =
           (if status (fst (post_comment purify now db s (Some n) (Some t))) = 201
            then Suc (length (filter (\<lambda>c. c_postId c = n) (db_comments db)))
            else length (filter (\<lambda>c. c_postId c = n) (db_comments db)))"
proof -
  have st: "status (fst (post_comment purify now db s (Some n) (Some t))) =
           (case po_maxComments post of
              None \<Rightarrow> 201
            | Some N \<Rightarrow>
                if int (length (filter (\<lambda>c. c_postId c = n) (db_comments db))) < N
                then 201 else 403)"
    by (cases "po_maxComments post") (simp_all add: post_comment_status[OF assms])
  have cnt: "length (filter (\<lambda>c. c_postId c = n)
             (db_comments (snd (post_comment purify now db s (Some n) (Some t))))) =
           (if status (fst (post_comment purify now db s (Some n) (Some t))) = 201
            then Suc (length (filter (\<lambda>c. c_postId c = n) (db_comments db)))
            else length (filter (\<lambda>c. c_postId c = n) (db_comments db)))"
    by (simp add: post_comment_status[OF assms] post_comment_db[OF assms])
  from st cnt show ?thesis by (rule conjI)
qed

lemma example_post1:
  "\<exists>post. getPost example_db 1 = PostObj post \<and> po_maxComments post = Some 3"
  by (simp add: getPost_def ex_defs)

lemma example_post3:
  "\<exists>post. getPost example_db 3 = PostObj post \<and> po_maxComments post = None"
  by (simp add: getPost_def ex_defs)

lemma example_counts:
  "length (filter (\<lambda>c. c_postId c = 1) (db_comments example_db)) = 3"
  "length (filter (\<lambda>c. c_postId c = 3) (db_comments example_db)) = 2"
  "length (filter (\<lambda>c. c_postId c = 1 \<and> c_userId c = None) (db_comments example_db)) = 1"
  by (simp_all add: ex_defs)

text \<open>
  Post 1 is capped at three comments and holds three: a fourth is refused. Post 3 has no cap:
  a third comment is accepted and the post then holds three.
\<close>

theorem comment_ceiling_witness:
  "status (fst (post_comment (\<lambda>t. t) ''2025-06-01 12:00:00'' example_db anonymous
             (Some 1) (Some ''hello''))) = 403 \<and>
   status (fst (post_comment (\<lambda>t. t) ''2025-06-01 12:00:00'' example_db anonymous
             (Some 3) (Some ''hello''))) = 201 \<and>
   length (filter (\<lambda>c. c_postId c = 3)
     (db_comments (snd (post_comment (\<lambda>t. t) ''2025-06-01 12:00:00'' example_db anonymous
             (Some 3) (Some ''hello''))))) = 3"
proof -
  obtain post1 where p1: "getPost example_db 1 = PostObj post1"
    and m1: "po_maxComments post1 = Some 3"
    using example_post1 by blast
  obtain post3 where p3: "getPost example_db 3 = PostObj post3"
    and m3: "po_maxComments post3 = None"
    using example_post3 by blast
  have t: "valid_text (\<lambda>t. t) (Some ''hello'')" by simp
  have one: "(1::int) \<le> 1" and three: "(1::int) \<le> 3" by simp_all
  show ?thesis
    using comment_ceiling[OF p1 one t, of "''2025-06-01 12:00:00''" anonymous]
      comment_ceiling[OF p3 three t, of "''2025-06-01 12:00:00''" anonymous]
      m1 m3 example_counts
    by simp
qed

section \<open>The ceiling counts the comments of every owner\<close>

text \<open>
  Claim C10. The count the creation endpoint compares with \<^verbatim>\<open>maxComments\<close> is the number
  of all comments of the post, whoever asks: the DAO is called with \<^verbatim>\<open>userId\<close> undefined,
  which leaves the anonymous filter off. So for a post capped at \<open>N\<close> the creation is
  refused exactly when the post holds \<open>N\<close> or more comments of any owner, also for an
  anonymous requester, whose own listing holds the anonymous comments only.
\<close>

theorem ceiling_counts_every_comment:
  assumes "getPost db n = PostObj post" and "po_maxComments post = Some N"
    and "1 \<le> n" and "valid_text purify (Some t)"
  shows "length (getCommentsByPostId db n JUndefined) =
           length (filter (\<lambda>c. c_postId c = n) (db_comments db)) \<and>
         (status (fst (post_comment purify now db s (Some n) (Some t))) = 403) =
           (N \<le> int (length (filter (\<lambda>c. c_postId c = n) (db_comments db)))) \<and>
         (req_user db s = None \<longrightarrow>
            length (getCommentsByPostId db n (requester_id db s)) =
              length (filter (\<lambda>c. c_postId c = n \<and> c_userId c = None) (db_comments db)))"
proof -
  have a: "(status (fst (post_comment purify now db s (Some n) (Some t))) = 403) =
           (N \<le> int (length (filter (\<lambda>c. c_postId c = n) (db_comments db))))"
    by (simp add: post_comment_status[OF assms(1,3,4)] assms(2))
  have b: "req_user db s = None \<longrightarrow>
            length (getCommentsByPostId db n (requester_id db s)) =
              length (filter (\<lambda>c. c_postId c = n \<and> c_userId c = None) (db_comments db))"
    by (simp add: requester_id_def count_anonymous)
  from count_undefined a b show ?thesis by blast
qed

text \<open>
  Nobody is logged in; post 1 is capped at three and holds three comments, one of them
  anonymous. The anonymous requester sees one comment and is refused all the same.
\<close>

theorem ceiling_counts_every_comment_witness:
  "length (getCommentsByPostId example_db 1 (requester_id example_db anonymous)) = 1 \<and>
   length (getCommentsByPostId example_db 1 JUndefined) = 3 \<and>
   status (fst (post_comment (\<lambda>t. t) ''2025-06-01 12:00:00'' example_db anonymous
             (Some 1) (Some ''hello''))) = 403"
proof -
  obtain post1 where p1: "getPost example_db 1 = PostObj post1"
    and m1: "po_maxComments post1 = Some 3"
    using example_post1 by blast
  have t: "valid_text (\<lambda>t. t) (Some ''hello'')" by simp
  have one: "(1::int) \<le> 1" by simp
  have a: "req_user example_db anonymous = None"
    by (simp add: req_user_def anonymous_def)
  show ?thesis
    using ceiling_counts_every_comment[OF p1 m1 one t, of "''2025-06-01 12:00:00''" anonymous]
      a example_counts
    by simp
qed

section \<open>Marking a comment twice\<close>

lemma mark_duplicate:
  assumes "list_ex (\<lambda>f. f_userId f = i \<and> f_commentId f = n) (db_flags db)"
  shows "markCommentAsInteresting db n (JNum i) =
     (Inl (''SQLITE_CONSTRAINT: UNIQUE constraint failed: '' @
           ''interesting_flags.userId, interesting_flags.commentId''), db)"
  using assms by (simp add: markCommentAsInteresting_def)

lemma post_interesting_duplicate:
  assumes "req_user db s = Some (UserObj u)" and "1 \<le> n"
    and "list_ex (\<lambda>f. f_userId f = ui_id u \<and> f_commentId f = n) (db_flags db)"
  shows "post_interesting db s (Some n) =
     (respond 503 (ErrorBody ''Database error while marking comment as interesting''), db)"
  using assms(1,2) by (simp add: post_interesting_def mark_duplicate[OF assms(3)] Let_def)

text \<open>
  Claim C1 at a failing input. diana has not flagged comment 3; her first mark is answered
  200 and the count of the comment goes from 0 to 1. Her second mark is answered 503 with
  the text of a database error, not 409; the count stays 1.
\<close>

theorem second_mark_answers_503:
  "status (fst (post_interesting example_db diana_session (Some 3))) = 200 \<and>
   interestingCount example_db 3 = 0 \<and>
   interestingCount (snd (post_interesting example_db diana_session (Some 3))) 3 = 1 \<and>
   fst (post_interesting (snd (post_interesting example_db diana_session (Some 3)))
          diana_session (Some 3)) =
     respond 503 (ErrorBody ''Database error while marking comment as interesting'') \<and>
   interestingCount
     (snd (post_interesting (snd (post_interesting example_db diana_session (Some 3)))
          diana_session (Some 3))) 3 = 1"
proof -
  have first: "post_interesting example_db diana_session (Some 3) =
      (respond 200 SuccessBody,
       example_db\<lparr>db_flags := db_flags example_db @ [\<lparr>f_userId = 4, f_commentId = 3\<rparr>]\<rparr>)"
    by (simp add: post_interesting_def example_diana markCommentAsInteresting_def Let_def)
       (simp add: ex_defs)
  have u2: "req_user (example_db\<lparr>db_flags := db_flags example_db @
                [\<lparr>f_userId = 4, f_commentId = 3\<rparr>]\<rparr>) diana_session =
      Some (UserObj \<lparr>ui_id = 4, ui_username = ''diana'', ui_admin = Some 0, ui_secret = []\<rparr>)"
    using example_diana by (simp add: req_user_def getUserById_def)
  have second: "post_interesting (example_db\<lparr>db_flags := db_flags example_db @
                [\<lparr>f_userId = 4, f_commentId = 3\<rparr>]\<rparr>) diana_session (Some 3) =
      (respond 503 (ErrorBody ''Database error while marking comment as interesting''),
       example_db\<lparr>db_flags := db_flags example_db @ [\<lparr>f_userId = 4, f_commentId = 3\<rparr>]\<rparr>)"
    by (rule post_interesting_duplicate[OF u2]) simp_all
  have c0: "interestingCount example_db 3 = 0"
    by (simp add: interestingCount_def ex_defs)
  have c1: "interestingCount (example_db\<lparr>db_flags := db_flags example_db @
                [\<lparr>f_userId = 4, f_commentId = 3\<rparr>]\<rparr>) 3 = 1"
    by (simp add: interestingCount_def ex_defs)
  show ?thesis
    by (simp add: first second c0 c1 respond_def)
qed

section \<open>The second factor: who may try, and which codes are tried\<close>

text \<open>
  Claim C7. A logged-in user who is no admin, or whose secret is empty, is answered 403 by
  the second-factor endpoint whatever the code and whatever the verifier would say of it;
  the session is left as it was, and a session that was not elevated is not elevated after.
\<close>

theorem second_factor_needs_admin_and_secret:
  assumes "req_user db s = Some requser" and "s_method s = None"
    and "\<not> user_admin requser \<or> user_secret requser = []"
  shows "status (fst (login_totp verify db s code)) = 403 \<and>
         snd (login_totp verify db s code) = s \<and>
         \<not> isAdminWithTotp (snd (login_totp verify db s code)) requser"
proof -
  have chk: "login_totp_check db requser code =
      Answer (respond 403 (ErrorBody ''Only admin can use 2FA login'')) \<or>
    login_totp_check db requser code =
      Answer (respond 403 (ErrorBody ''2FA not enabled for this user''))"
    using assms(3) by (auto simp: login_totp_check_def Let_def)
  then have st: "status (fst (login_totp verify db s code)) = 403"
    and same: "snd (login_totp verify db s code) = s"
    using assms(1) by (auto simp: login_totp_def respond_def)
  have "\<not> isAdminWithTotp s requser"
    using assms(2) by (simp add: isAdminWithTotp_def)
  with st same show ?thesis by simp
qed

text \<open>
  diana is no admin and has no secret: a six-digit code that the verifier would accept is
  answered 403, and her session stays as it was.
\<close>

theorem second_factor_needs_admin_and_secret_witness:
  "status (fst (login_totp (\<lambda>secret code. True) example_db diana_session
                  (VString ''123456''))) = 403 \<and>
   snd (login_totp (\<lambda>secret code. True) example_db diana_session (VString ''123456'')) =
     diana_session"
proof -
  have m: "s_method diana_session = None" by (simp add: diana_session_def)
  have n: "\<not> user_admin (UserObj \<lparr>ui_id = 4, ui_username = ''diana'', ui_admin = Some 0,
              ui_secret = []\<rparr>) \<or>
           user_secret (UserObj \<lparr>ui_id = 4, ui_username = ''diana'', ui_admin = Some 0,
              ui_secret = []\<rparr>) = []"
    by simp
  show ?thesis
    using second_factor_needs_admin_and_secret[OF example_diana m n,
        of "\<lambda>secret code. True" "VString ''123456''"]
    by simp
qed






section \<open>The credential verifier\<close>

lemma getUser_unknown:
  assumes "find (\<lambda>r. u_username r = username) (db_users db) = None"
  shows "getUser scrypt db username password = Inr None"
  using assms by (simp add: getUser_def)

lemma getUser_known:
  assumes "find (\<lambda>r. u_username r = username) (db_users db) = Some row"
    and "length (from_hex (u_password row)) = length (scrypt password (u_salt row))"
  shows "getUser scrypt db username password =
     (if from_hex (u_password row) = scrypt password (u_salt row)
      then Inr (Some (user_of_row row)) else Inr None)"
  using assms by (simp add: getUser_def timingSafeEqual_def Let_def)

lemma stored_hash_length:
  assumes "list_all (\<lambda>r. length (from_hex (u_password r)) = 32) (db_users db)"
    and "find (\<lambda>r. u_username r = username) (db_users db) = Some row"
  shows "length (from_hex (u_password row)) = 32"
proof -
  from assms(2) have "row \<in> set (db_users db)"
    by (auto simp: find_Some_iff in_set_conv_nth)
  with assms(1) show ?thesis by (simp add: list_all_iff)
qed

text \<open>
  Claim C9. Let \<^verbatim>\<open>scrypt\<close> yield 32 bytes and every stored hash decode to 32 bytes. Then
  \<^verbatim>\<open>getUser\<close> returns a user exactly when a row has the username and the hash of the
  password under the row's salt is the stored hash, and that user is the row's; for an
  unknown username and for a wrong password the result is the same value, \<^verbatim>\<open>false\<close>.
\<close>

theorem getUser_verifies:
  assumes "\<And>p salt. length (scrypt p salt) = 32"
    and "list_all (\<lambda>r. length (from_hex (u_password r)) = 32) (db_users db)"
  shows "(getUser scrypt db username password = Inr (Some u)) =
           (\<exists>row. find (\<lambda>r. u_username r = username) (db_users db) = Some row \<and>
                  scrypt password (u_salt row) = from_hex (u_password row) \<and>
                  u = user_of_row row) \<and>
         (find (\<lambda>r. u_username r = username) (db_users db) = None \<longrightarrow>
            getUser scrypt db username password = Inr None) \<and>
         (\<forall>row. find (\<lambda>r. u_username r = username) (db_users db) = Some row \<and>
                scrypt password (u_salt row) \<noteq> from_hex (u_password row) \<longrightarrow>
            getUser scrypt db username password = Inr None)"
proof (cases "find (\<lambda>r. u_username r = username) (db_users db)")
  case None
  then show ?thesis by (simp add: getUser_unknown)
next
  case (Some row)
  have len: "length (from_hex (u_password row)) = length (scrypt password (u_salt row))"
    using stored_hash_length[OF assms(2) Some] assms(1) by simp
  have run: "getUser scrypt db username password =
     (if from_hex (u_password row) = scrypt password (u_salt row)
      then Inr (Some (user_of_row row)) else Inr None)"
    using Some len by (rule getUser_known)
  show ?thesis
    using Some by (auto simp: run)
qed

text \<open>
  A stand-in for scrypt that maps one password under alberto's salt to alberto's stored
  hash and everything else to 32 zero bytes: the right password returns alberto, a wrong
  password and an unknown username return the same \<^verbatim>\<open>false\<close>.
\<close>

theorem getUser_verifies_witness:
  "getUser (\<lambda>p salt. if p = ''quantum'' \<and> salt = ''123348dusd437840''
       then from_hex ''451f285506c0b237317244eb8fb57ea736cb9693b4b329e300bcfec4d63485ca''
       else replicate 32 0) example_db ''alberto'' ''quantum'' =
     Inr (Some \<lparr>ui_id = 1, ui_username = ''alberto'', ui_admin = Some 1,
                   ui_secret = ''LXBSMDTMSP2I5XFXIYRGFVWSFI''\<rparr>) \<and>
   getUser (\<lambda>p salt. if p = ''quantum'' \<and> salt = ''123348dusd437840''
       then from_hex ''451f285506c0b237317244eb8fb57ea736cb9693b4b329e300bcfec4d63485ca''
       else replicate 32 0) example_db ''alberto'' ''password'' = Inr None \<and>
   getUser (\<lambda>p salt. if p = ''quantum'' \<and> salt = ''123348dusd437840''
       then from_hex ''451f285506c0b237317244eb8fb57ea736cb9693b4b329e300bcfec4d63485ca''
       else replicate 32 0) example_db ''nobody'' ''quantum'' = Inr None"
proof -
  define kdf where "kdf = (\<lambda>p salt. if p = ''quantum'' \<and> salt = ''123348dusd437840''
       then from_hex ''451f285506c0b237317244eb8fb57ea736cb9693b4b329e300bcfec4d63485ca''
       else replicate 32 (0 :: 8 word))"
  have h: "length (from_hex
      ''451f285506c0b237317244eb8fb57ea736cb9693b4b329e300bcfec4d63485ca'') = 32"
    by (simp add: hex_val_def)
  have len: "\<And>p salt. length (kdf p salt) = 32"
    by (simp add: kdf_def h del: from_hex.simps)
  have wf: "list_all (\<lambda>r. length (from_hex (u_password r)) = 32) (db_users example_db)"
    by (simp add: ex_defs hex_val_def)
  have row: "find (\<lambda>r. u_username r = ''alberto'') (db_users example_db) =
      Some \<lparr>u_id = 1, u_username = ''alberto'', u_salt = ''123348dusd437840'',
       u_password = ''451f285506c0b237317244eb8fb57ea736cb9693b4b329e300bcfec4d63485ca'',
       u_secret = ''LXBSMDTMSP2I5XFXIYRGFVWSFI'', u_admin = Some 1\<rparr>"
    by (simp add: ex_defs)
  have none: "find (\<lambda>r. u_username r = ''nobody'') (db_users example_db) = None"
    by (simp add: ex_defs)
  have wrong: "kdf ''password'' ''123348dusd437840'' \<noteq>
      from_hex ''451f285506c0b237317244eb8fb57ea736cb9693b4b329e300bcfec4d63485ca''"
  proof -
    have "hd (replicate 32 (0 :: 8 word)) \<noteq> hd (from_hex
        ''451f285506c0b237317244eb8fb57ea736cb9693b4b329e300bcfec4d63485ca'')"
      by (simp add: hex_val_def)
    then have "replicate 32 (0 :: 8 word) \<noteq>
        from_hex ''451f285506c0b237317244eb8fb57ea736cb9693b4b329e300bcfec4d63485ca''"
      by metis
    then show ?thesis by (simp add: kdf_def del: from_hex.simps)
  qed
  have right: "kdf ''quantum'' ''123348dusd437840'' =
      from_hex ''451f285506c0b237317244eb8fb57ea736cb9693b4b329e300bcfec4d63485ca''"
    by (simp add: kdf_def)
  have a: "getUser kdf example_db ''alberto'' ''quantum'' =
     Inr (Some \<lparr>ui_id = 1, ui_username = ''alberto'', ui_admin = Some 1,
                   ui_secret = ''LXBSMDTMSP2I5XFXIYRGFVWSFI''\<rparr>)"
    using getUser_verifies[where scrypt = kdf and username = "''alberto''"
        and password = "''quantum''"
        and u = "\<lparr>ui_id = 1, ui_username = ''alberto'', ui_admin = Some 1,
          ui_secret = ''LXBSMDTMSP2I5XFXIYRGFVWSFI''\<rparr>", OF len wf] row right
    by (simp add: user_of_row_def)
  have b: "getUser kdf example_db ''alberto'' ''password'' = Inr None"
    using getUser_verifies[where scrypt = kdf and username = "''alberto''"
        and password = "''password''", OF len wf] row wrong
    by simp
  have c: "getUser kdf example_db ''nobody'' ''quantum'' = Inr None"
    using getUser_verifies[where scrypt = kdf and username = "''nobody''"
        and password = "''quantum''", OF len wf] none
    by simp
  from a b c show ?thesis unfolding kdf_def by simp
qed

end
